theory Spec2Isabelle
  imports Complex_Main "HOL-Library.AList"
begin

section \<open>Errors and Python dictionaries\<close>

text \<open>
  The exceptions that the functions of \<^verbatim>\<open>cnpv.py\<close> can raise are values: a function that
  may raise returns \<open>error + 'a\<close>, with \<open>Inl\<close> for the exception. \<open>KeyError\<close> carries its
  argument: the key that was missing from a dictionary, the message of \<^verbatim>\<open>zipfile\<close>.
  \<open>TypeError\<close>, \<open>ValueError\<close> and \<open>InvalidIndexError\<close> are those that pandas raises in
  \<^verbatim>\<open>astype\<close>, \<^verbatim>\<open>update\<close> and \<^verbatim>\<open>concat\<close>. \<open>ExternalError\<close> stands for whatever an external
  collaborator (the Stata decoder, the CSPro dictionary parser) raises.
\<close>

datatype error =
    KeyError string
  | IndexError
  | BadZipFile
  | IsADirectoryError
  | TypeError
  | ValueError
  | InvalidIndexError
  | ExternalError string

text \<open>
  A Python \<^verbatim>\<open>dict\<close> keeps its keys in insertion order, and assigning to a key that is present
  keeps the key's position: an association list with \<open>map_of\<close> for the lookup and
  \<open>AList.update\<close> for the assignment. \<^verbatim>\<open>d[k]\<close> raises \<open>KeyError\<close> on a missing key.
\<close>

type_synonym ('k, 'a) pydict = "('k \<times> 'a) list"

definition getitem :: "(string, 'a) pydict \<Rightarrow> string \<Rightarrow> error + 'a" where
  "getitem d k = (case map_of d k of None \<Rightarrow> Inl (KeyError k) | Some v \<Rightarrow> Inr v)"

section \<open>Record Type Mapper\<close>

text \<open>
  \<^verbatim>\<open>str.split(sep)\<close> with an explicit one-character separator: the string is cut at every
  occurrence of the separator, empty pieces are kept, and the empty string gives one
  empty piece.
\<close>

fun split :: "char \<Rightarrow> string \<Rightarrow> string list" where
  "split sep [] = [[]]"
| "split sep (c # cs) =
     (if c = sep then [] # split sep cs
      else (case split sep cs of
              [] \<Rightarrow> [[c]]
            | s # ss \<Rightarrow> (c # s) # ss))"

text \<open>
  \<^verbatim>\<open>
  def MapRecordName(record_name):
      name_dict = {"viviendas": "REGVIV", "hogares": "REGHOG",
                   "fallecidos": "REGFALL", "personas": "REGPER"}
      return name_dict[record_name]
  \<close>
\<close>

definition MapRecordName :: "string \<Rightarrow> error + string" where
  "MapRecordName record_name =
     (let name_dict =
        [(''viviendas'', ''REGVIV''),
         (''hogares'', ''REGHOG''),
         (''fallecidos'', ''REGFALL''),
         (''personas'', ''REGPER'')]
      in getitem name_dict record_name)"

text \<open>
  \<^verbatim>\<open>
  def MapDataframeName(filename):
      key_string = filename.split("_")[1]
      name_dict = {"1VIV": "viviendas", "2HOG": "hogares", "3FALL": "fallecidos",
                   "5PER": "personas", "MGN": "marco_georreferenciacion"}
      return name_dict[key_string]
  \<close>
  Indexing the list of pieces at 1 raises \<open>IndexError\<close> when the filename has no underscore.
\<close>

definition MapDataframeName :: "string \<Rightarrow> error + string" where
  "MapDataframeName filename =
     (case split (CHR ''_'') filename of
        _ # key_string # _ \<Rightarrow>
          (let name_dict =
             [(''1VIV'', ''viviendas''),
              (''2HOG'', ''hogares''),
              (''3FALL'', ''fallecidos''),
              (''5PER'', ''personas''),
              (''MGN'', ''marco_georreferenciacion'')]
           in getitem name_dict key_string)
      | _ \<Rightarrow> Inl IndexError)"

section \<open>Tables\<close>

text \<open>
  A value of a cell is missing (\<^verbatim>\<open>NaN\<close>, \<^verbatim>\<open>pd.NA\<close>, \<^verbatim>\<open>None\<close>), a number or a text. A
  number is modelled by its value: the integer 2 and the float 2.0 are the same value,
  as they are equal in Python.
\<close>

datatype "value" = Missing | Num rat | Str string

text \<open>
  Where \<^verbatim>\<open>pd.concat\<close> and \<^verbatim>\<open>df.replace\<close> work, a \<^verbatim>\<open>DataFrame\<close> is modelled by its rows,
  in order; a row is the list of its cells, each with the name of its column. The table
  with no row has no column either: a table with columns and no row is not modelled.
  Row labels are not modelled.
  \<^item> \<^verbatim>\<open>pd.DataFrame()\<close> is the table with no row.
  \<^item> \<^verbatim>\<open>df.replace(d)\<close> with a nested dictionary \<open>d\<close> (column name to encoded value to
    label) gives a new table in which a cell of column \<open>c\<close> holding \<open>v\<close> holds \<open>d[c][v]\<close>
    when \<open>d\<close> has column \<open>c\<close> and \<open>d[c]\<close> has \<open>v\<close>, and is unchanged otherwise.
\<close>

type_synonym 'v row = "(string \<times> 'v) list"

type_synonym 'v DataFrame = "'v row list"

type_synonym 'v value_labels = "string \<rightharpoonup> ('v \<rightharpoonup> 'v)"

definition pd_DataFrame :: "'v DataFrame" where
  "pd_DataFrame = []"

definition replace_value :: "'v value_labels \<Rightarrow> string \<Rightarrow> 'v \<Rightarrow> 'v" where
  "replace_value d c v =
     (case d c of
        None \<Rightarrow> v
      | Some labels \<Rightarrow> (case labels v of None \<Rightarrow> v | Some l \<Rightarrow> l))"

definition replace :: "'v DataFrame \<Rightarrow> 'v value_labels \<Rightarrow> 'v DataFrame" where
  "replace df d = map (map (\<lambda>(c, v). (c, replace_value d c v))) df"

text \<open>
  \<^verbatim>\<open>pd.concat([a, b])\<close>, with the default outer join on the columns. The columns of a table
  are the names in its first row. When the two tables have the same columns, in the same
  order, or one of them has no row, the result is the rows of \<open>a\<close> followed by the rows
  of \<open>b\<close>. Otherwise the columns of the result are those of \<open>a\<close> followed by those of \<open>b\<close>
  that \<open>a\<close> lacks, every row is re-aligned to them by name, and a cell of a column that
  the row's table lacks is missing; a table with two columns of the same name cannot be
  re-aligned, and pandas raises \<open>InvalidIndexError\<close>.
\<close>

definition columns_of :: "'v DataFrame \<Rightarrow> string list" where
  "columns_of df = (case df of [] \<Rightarrow> [] | r # _ \<Rightarrow> map fst r)"

definition reindex :: "string list \<Rightarrow> value row \<Rightarrow> value row" where
  "reindex columns r =
     map (\<lambda>c. (c, case map_of r c of None \<Rightarrow> Missing | Some v \<Rightarrow> v)) columns"

definition pd_concat :: "value DataFrame \<Rightarrow> value DataFrame \<Rightarrow> error + value DataFrame" where
  "pd_concat a b =
     (if columns_of a = columns_of b \<or> a = [] \<or> b = [] then Inr (a @ b)
      else if distinct (columns_of a) \<and> distinct (columns_of b) then
        (let columns = columns_of a @ filter (\<lambda>c. c \<notin> set (columns_of a)) (columns_of b)
         in Inr (map (reindex columns) a @ map (reindex columns) b))
      else Inl InvalidIndexError)"

text \<open>
  Where \<open>CleanDataframe\<close> works, a \<^verbatim>\<open>DataFrame\<close> is modelled by its columns, in order, each
  with its name, its element type and its cells from the first row to the last. The
  element types are \<^verbatim>\<open>float64\<close>, the nullable \<^verbatim>\<open>Int64\<close> and \<^verbatim>\<open>Float64\<close>, \<^verbatim>\<open>object\<close>, and any
  other one by its name (\<^verbatim>\<open>int8\<close>, \<^verbatim>\<open>float32\<close>, \<^verbatim>\<open>category\<close>). The names of the columns of
  a table that \<open>CleanDataframe\<close> receives are distinct, as those of a Stata file are.
\<close>

datatype dtype = float64 | Int64 | Float64 | object | other_dtype string

record column =
  column_name :: string
  dtype :: dtype
  cells :: "value list"

text \<open>The rows of a table given by its columns.\<close>

definition rows_of :: "column list \<Rightarrow> value DataFrame" where
  "rows_of df = map (zip (map column_name df)) (transpose (map cells df))"

text \<open>
  \<^verbatim>\<open>df.select_dtypes(include=["float64"])\<close>: the columns of element type \<^verbatim>\<open>float64\<close>.
\<close>

definition select_dtypes :: "column list \<Rightarrow> column list" where
  "select_dtypes df = filter (\<lambda>c. dtype c = float64) df"

text \<open>
  \<^verbatim>\<open>astype("Int64")\<close> on \<^verbatim>\<open>float64\<close> columns: a missing value stays missing, a number that
  is an integer of 64 bits is kept, and any other value makes pandas raise \<open>TypeError\<close>
  (cannot safely cast non-equivalent float64 to int64).
\<close>

fun castable :: "value \<Rightarrow> bool" where
  "castable Missing = True"
| "castable (Num q) = (q \<in> \<int> \<and> - (2 ^ 63) \<le> q \<and> q < 2 ^ 63)"
| "castable (Str s) = False"

definition astype_Int64 :: "column list \<Rightarrow> error + column list" where
  "astype_Int64 df =
     (if list_all (\<lambda>c. list_all castable (cells c)) df
      then Inr (map (\<lambda>c. c\<lparr>dtype := Int64\<rparr>) df)
      else Inl TypeError)"

text \<open>
  \<^verbatim>\<open>df.update(other)\<close>, for \<open>other\<close> the \<^verbatim>\<open>Int64\<close> copy of the \<^verbatim>\<open>float64\<close> columns of \<open>df\<close>.
  For each column of \<open>df\<close> that \<open>other\<close> has, by name, \<^verbatim>\<open>update\<close> computes the mask of
  the missing values of the other column; when all are missing it leaves the column as
  it is; otherwise it writes into the column of \<open>df\<close> the values of the column where
  the mask holds and those of the other column elsewhere. \<^verbatim>\<open>update\<close> writes values: it
  does not give the column the element type of the other column. The element type that
  the column has afterwards depends on the release of pandas:
  \<^item> before 2.2, the values written are an array of Python objects, and the column
    becomes an \<^verbatim>\<open>object\<close> column;
  \<^item> from 2.2, the values are written in place when none is missing, and the column
    stays \<^verbatim>\<open>float64\<close>; when one is missing, they are a nullable array that a \<^verbatim>\<open>float64\<close>
    column cannot hold, and in 2.2 and 2.3 the column becomes a \<^verbatim>\<open>Float64\<close> column,
    with a warning;
  \<^item> from 3.0, that case raises \<open>TypeError\<close>, and \<^verbatim>\<open>update\<close> raises \<open>ValueError\<close> on a
    table with no row.
\<close>

datatype pandas_release = Before_2_2 | From_2_2 | From_3_0

definition update_column :: "pandas_release \<Rightarrow> column \<Rightarrow> column \<Rightarrow> error + column" where
  "update_column release this that =
     (let mask = map (\<lambda>v. v = Missing) (cells that);
          written = map (\<lambda>(x, y). if y = Missing then x else y) (zip (cells this) (cells that))
      in if list_all id mask then Inr this
         else (case release of
                 Before_2_2 \<Rightarrow> Inr (this\<lparr>dtype := object, cells := written\<rparr>)
               | From_2_2 \<Rightarrow>
                   (if list_ex id mask then Inr (this\<lparr>dtype := Float64, cells := written\<rparr>)
                    else Inr (this\<lparr>cells := written\<rparr>))
               | From_3_0 \<Rightarrow>
                   (if list_ex id mask then Inl TypeError
                    else Inr (this\<lparr>cells := written\<rparr>))))"

fun update_columns ::
  "pandas_release \<Rightarrow> column list \<Rightarrow> column list \<Rightarrow> error + column list" where
  "update_columns release [] other = Inr []"
| "update_columns release (this # rest) other =
     (case (case find (\<lambda>that. column_name that = column_name this) other of
              None \<Rightarrow> Inr this
            | Some that \<Rightarrow> update_column release this that) of
        Inl e \<Rightarrow> Inl e
      | Inr this' \<Rightarrow>
          (case update_columns release rest other of
             Inl e \<Rightarrow> Inl e
           | Inr rest' \<Rightarrow> Inr (this' # rest')))"

definition update :: "pandas_release \<Rightarrow> column list \<Rightarrow> column list \<Rightarrow> error + column list" where
  "update release df other =
     (if release = From_3_0 \<and> list_all (\<lambda>c. cells c = []) df then Inl ValueError
      else update_columns release df other)"

section \<open>Archives, folders and the external collaborators\<close>

text \<open>
  The bytes of a file either are a zip archive, with its entries in the archive's order,
  or are not. \<^verbatim>\<open>ZipFile(f)\<close> raises \<open>BadZipFile\<close> on bytes that are no archive;
  \<^verbatim>\<open>namelist()\<close> lists the names of the entries in order; \<^verbatim>\<open>open(name)\<close> reads the last
  entry of that name, and raises \<open>KeyError\<close> with the message of \<^verbatim>\<open>zipfile\<close> when there is
  none. The message quotes the name as \<^verbatim>\<open>repr\<close> does, which is the name between single
  quotes for a name with no quote, backslash or unprintable character.
\<close>

datatype 'b blob = Data 'b | Archive "(string \<times> 'b blob) list"

definition ZipFile :: "'b blob \<Rightarrow> error + (string \<times> 'b blob) list" where
  "ZipFile f = (case f of Data _ \<Rightarrow> Inl BadZipFile | Archive entries \<Rightarrow> Inr entries)"

definition namelist :: "(string \<times> 'b blob) list \<Rightarrow> string list" where
  "namelist entries = map fst entries"

definition repr :: "string \<Rightarrow> string" where
  "repr s = [CHR 0x27] @ s @ [CHR 0x27]"

definition zip_open :: "(string \<times> 'b blob) list \<Rightarrow> string \<Rightarrow> error + 'b blob" where
  "zip_open entries name =
     (case map_of (rev entries) name of
        None \<Rightarrow> Inl (KeyError (''There is no item named '' @ repr name @ '' in the archive''))
      | Some f \<Rightarrow> Inr f)"

text \<open>
  What lives under a path: a file with its bytes, or a directory with its named entries.
\<close>

datatype 'b fsnode = File "'b blob" | Dir "(string \<times> 'b fsnode) list"

text \<open>
  The external collaborators, as parameters of the model:
  \<^item> \<open>read_stata\<close>: \<^verbatim>\<open>pd.read_stata\<close>, the decoder of a Stata file;
  \<^item> \<open>pandas_version\<close>: the release of pandas that is installed;
  \<^item> \<open>str_upper\<close>: \<^verbatim>\<open>str.upper\<close>;
  \<^item> \<open>DictionaryParser\<close>: decoding the dictionary file as UTF-8 and parsing it with pycspro;
  \<^item> \<open>get_value_labels\<close>: the parsed dictionary's lookup of the value labels of a schema.
  The decoder, the parser and the lookup may raise.
\<close>

record ('b, 'v, 'd) externals =
  read_stata :: "'b blob \<Rightarrow> error + column list"
  pandas_version :: pandas_release
  str_upper :: "string \<Rightarrow> string"
  DictionaryParser :: "'b blob \<Rightarrow> error + 'd"
  get_value_labels :: "'d \<Rightarrow> string \<Rightarrow> error + 'v value_labels"

section \<open>Table Cleaner and Archive Decoder\<close>

text \<open>
  \<^verbatim>\<open>
  def CleanDataframe(df):
      clean_df = df.select_dtypes(include=["float64"]).astype("Int64")
      df.update(clean_df)
      df.columns = map(str.upper, df.columns)
      return df
  \<close>
\<close>

definition CleanDataframe :: "('b, 'v, 'd) externals \<Rightarrow> column list \<Rightarrow> error + column list" where
  "CleanDataframe ext df =
     (case astype_Int64 (select_dtypes df) of
        Inl e \<Rightarrow> Inl e
      | Inr clean_df \<Rightarrow>
          (case update (pandas_version ext) df clean_df of
             Inl e \<Rightarrow> Inl e
           | Inr df' \<Rightarrow> Inr (map (\<lambda>c. c\<lparr>column_name := str_upper ext (column_name c)\<rparr>) df')))"

text \<open>
  \<^verbatim>\<open>
  def ReadStataData(data):
      df = pd.read_stata(data)
      df = CleanDataframe(df)
      return df
  \<close>
  The element types matter to \<open>CleanDataframe\<close> only: the cleaned table is handed on by
  its rows.
\<close>

definition ReadStataData :: "('b, 'v, 'd) externals \<Rightarrow> 'b blob \<Rightarrow> error + value DataFrame" where
  "ReadStataData ext data =
     (case read_stata ext data of
        Inl e \<Rightarrow> Inl e
      | Inr df \<Rightarrow>
          (case CleanDataframe ext df of
             Inl e \<Rightarrow> Inl e
           | Inr df' \<Rightarrow> Inr (rows_of df')))"

text \<open>
  \<^verbatim>\<open>str.lower\<close> and \<^verbatim>\<open>str.endswith\<close>. Only the letters A to Z are lowered: no other
  character becomes one of the characters of \<^verbatim>\<open>dta.zip\<close> when Python lowers it.
\<close>

definition lower_char :: "char \<Rightarrow> char" where
  "lower_char c =
     (case map_of (zip ''ABCDEFGHIJKLMNOPQRSTUVWXYZ'' ''abcdefghijklmnopqrstuvwxyz'') c of
        None \<Rightarrow> c
      | Some l \<Rightarrow> l)"

definition lower :: "string \<Rightarrow> string" where
  "lower s = map lower_char s"

definition endswith :: "string \<Rightarrow> string \<Rightarrow> bool" where
  "endswith s suffix =
     (length suffix \<le> length s \<and> drop (length s - length suffix) s = suffix)"

text \<open>
  The loop over the files of one nested archive (lines 74 to 78): the record type of the
  filename, the decoded and cleaned table, and the assignment to \<open>df_dictionary\<close>. An
  exception leaves the loop and the function.
\<close>

fun dta_file_loop ::
  "('b, 'v, 'd) externals \<Rightarrow> (string \<times> 'b blob) list \<Rightarrow> string list \<Rightarrow>
   (string, value DataFrame) pydict \<Rightarrow> error + (string, value DataFrame) pydict" where
  "dta_file_loop ext dta_archive [] df_dictionary = Inr df_dictionary"
| "dta_file_loop ext dta_archive (filename # rest) df_dictionary =
     (case MapDataframeName filename of
        Inl e \<Rightarrow> Inl e
      | Inr dataframe_name \<Rightarrow>
          (case zip_open dta_archive filename of
             Inl e \<Rightarrow> Inl e
           | Inr dta_file \<Rightarrow>
               (case ReadStataData ext dta_file of
                  Inl e \<Rightarrow> Inl e
                | Inr df \<Rightarrow>
                    dta_file_loop ext dta_archive rest
                      (AList.update dataframe_name df df_dictionary))))"

text \<open>
  The loop over the selected entries of the outer archive (lines 69 to 78): each is read
  whole and opened as a nested archive.
\<close>

fun dta_archive_loop ::
  "('b, 'v, 'd) externals \<Rightarrow> (string \<times> 'b blob) list \<Rightarrow> string list \<Rightarrow>
   (string, value DataFrame) pydict \<Rightarrow> error + (string, value DataFrame) pydict" where
  "dta_archive_loop ext data_archive [] df_dictionary = Inr df_dictionary"
| "dta_archive_loop ext data_archive (filename # rest) df_dictionary =
     (case zip_open data_archive filename of
        Inl e \<Rightarrow> Inl e
      | Inr nested_data_archive \<Rightarrow>
          (case ZipFile nested_data_archive of
             Inl e \<Rightarrow> Inl e
           | Inr dta_archive \<Rightarrow>
               (case dta_file_loop ext dta_archive (namelist dta_archive) df_dictionary of
                  Inl e \<Rightarrow> Inl e
                | Inr df_dictionary' \<Rightarrow>
                    dta_archive_loop ext data_archive rest df_dictionary')))"

text \<open>
  \<open>ReadZippedStataData\<close> on what lives under \<open>file_path\<close>. Opening a directory as an archive
  raises.
\<close>

definition ReadZippedStataData ::
  "('b, 'v, 'd) externals \<Rightarrow> 'b fsnode \<Rightarrow> error + (string, value DataFrame) pydict" where
  "ReadZippedStataData ext file_path =
     (case file_path of
        Dir _ \<Rightarrow> Inl IsADirectoryError
      | File f \<Rightarrow>
          (case ZipFile f of
             Inl e \<Rightarrow> Inl e
           | Inr data_archive \<Rightarrow>
               (let dta_archive_list =
                  filter (\<lambda>filename. endswith (lower filename) ''dta.zip'')
                    (namelist data_archive)
                in dta_archive_loop ext data_archive dta_archive_list [])))"

section \<open>Folder Aggregator\<close>

text \<open>
  \<^verbatim>\<open>Path(folder_path).glob("**/[0-9][0-9]_*")\<close>: the entries, at any depth under the folder,
  whose name is two digits, an underscore and anything. The entries of a directory come
  before those of its subdirectories.
\<close>

definition isdigit :: "char \<Rightarrow> bool" where
  "isdigit c = (c \<in> set ''0123456789'')"

fun fnmatch :: "string \<Rightarrow> bool" where
  "fnmatch (a # b # c # rest) = (isdigit a \<and> isdigit b \<and> c = CHR ''_'')"
| "fnmatch _ = False"

fun glob :: "'b fsnode \<Rightarrow> 'b fsnode list" where
  "glob (File f) = []"
| "glob (Dir entries) =
     map snd (filter (\<lambda>e. fnmatch (fst e)) entries) @ concat (map (\<lambda>e. glob (snd e)) entries)"

text \<open>
  The inner loop of \<open>ReadDataFolder\<close> (lines 48 and 49) over the keys of \<open>dfs\<close>:
  \<^verbatim>\<open>dfs[key] = pd.concat([current_dfs[key], dfs[key]])\<close>.
\<close>

fun key_loop ::
  "(string, value DataFrame) pydict \<Rightarrow> string list \<Rightarrow> (string, value DataFrame) pydict \<Rightarrow>
   error + (string, value DataFrame) pydict" where
  "key_loop current_dfs [] dfs = Inr dfs"
| "key_loop current_dfs (key # rest) dfs =
     (case getitem current_dfs key of
        Inl e \<Rightarrow> Inl e
      | Inr current \<Rightarrow>
          (case getitem dfs key of
             Inl e \<Rightarrow> Inl e
           | Inr df \<Rightarrow>
               (case pd_concat current df of
                  Inl e \<Rightarrow> Inl e
                | Inr df' \<Rightarrow> key_loop current_dfs rest (AList.update key df' dfs))))"

text \<open>The loop of \<open>ReadDataFolder\<close> over the paths (lines 46 to 49).\<close>

fun path_loop ::
  "('b, 'v, 'd) externals \<Rightarrow> 'b fsnode list \<Rightarrow> (string, value DataFrame) pydict \<Rightarrow>
   error + (string, value DataFrame) pydict" where
  "path_loop ext [] dfs = Inr dfs"
| "path_loop ext (path # rest) dfs =
     (case ReadZippedStataData ext path of
        Inl e \<Rightarrow> Inl e
      | Inr current_dfs \<Rightarrow>
          (case key_loop current_dfs (map fst dfs) dfs of
             Inl e \<Rightarrow> Inl e
           | Inr dfs' \<Rightarrow> path_loop ext rest dfs'))"

definition ReadDataFolder ::
  "('b, 'v, 'd) externals \<Rightarrow> 'b fsnode \<Rightarrow> error + (string, value DataFrame) pydict" where
  "ReadDataFolder ext folder_path =
     (let dfs =
        [(''viviendas'', pd_DataFrame),
         (''hogares'', pd_DataFrame),
         (''fallecidos'', pd_DataFrame),
         (''personas'', pd_DataFrame),
         (''marco_georreferenciacion'', pd_DataFrame)];
        pathlist = glob folder_path
      in path_loop ext pathlist dfs)"

section \<open>Dictionary Adapter and Label Substitutor\<close>

definition ReadCSProDct :: "('b, 'v, 'd) externals \<Rightarrow> 'b fsnode \<Rightarrow> error + 'd" where
  "ReadCSProDct ext dict_path =
     (case dict_path of
        Dir _ \<Rightarrow> Inl IsADirectoryError
      | File f \<Rightarrow>
          (case ZipFile f of
             Inl e \<Rightarrow> Inl e
           | Inr dict_archive \<Rightarrow>
               (case zip_open dict_archive ''Diccionario_datosCNPV.dcf'' of
                  Inl e \<Rightarrow> Inl e
                | Inr dict_file \<Rightarrow> DictionaryParser ext dict_file)))"

text \<open>
  \<open>GetValueLabels\<close> returns, with its result, the schema identifiers with which it queried
  the parsed dictionary: none when \<open>MapRecordName\<close> raises, since the argument is evaluated
  before the call.
\<close>

definition GetValueLabels ::
  "('b, 'v, 'd) externals \<Rightarrow> 'd \<Rightarrow> string \<Rightarrow> (error + 'v value_labels) \<times> string list" where
  "GetValueLabels ext dictionary_parser table_name =
     (case MapRecordName table_name of
        Inl e \<Rightarrow> (Inl e, [])
      | Inr schema \<Rightarrow> (get_value_labels ext dictionary_parser schema, [schema]))"

text \<open>
  The loop of \<open>CreateProcessedDataframe\<close> (lines 23 to 25) over the items of \<open>dfs\<close>, which
  assigns to the key it is at. The second component of the result is the list of the
  queries made to the parsed dictionary, also when the loop raises.
\<close>

fun label_loop ::
  "('b, 'v, 'd) externals \<Rightarrow> 'd \<Rightarrow> (string \<times> 'v DataFrame) list \<Rightarrow>
   (string, 'v DataFrame) pydict \<Rightarrow> (error + (string, 'v DataFrame) pydict) \<times> string list" where
  "label_loop ext dictionary_parser [] dfs = (Inr dfs, [])"
| "label_loop ext dictionary_parser ((name, df) # rest) dfs =
     (if name \<noteq> ''marco_georreferenciacion'' then
        (case GetValueLabels ext dictionary_parser name of
           (Inl e, queries) \<Rightarrow> (Inl e, queries)
         | (Inr value_labels, queries) \<Rightarrow>
             (case label_loop ext dictionary_parser rest
                     (AList.update name (replace df value_labels) dfs) of
                (result, queries') \<Rightarrow> (result, queries @ queries')))
      else label_loop ext dictionary_parser rest dfs)"

definition CreateProcessedDataframe ::
  "('b, value, 'd) externals \<Rightarrow> 'b fsnode \<Rightarrow> 'b fsnode \<Rightarrow>
   (error + (string, value DataFrame) pydict) \<times> string list" where
  "CreateProcessedDataframe ext folder_path dict_path =
     (case ReadDataFolder ext folder_path of
        Inl e \<Rightarrow> (Inl e, [])
      | Inr dfs \<Rightarrow>
          (case ReadCSProDct ext dict_path of
             Inl e \<Rightarrow> (Inl e, [])
           | Inr dictionary_parser \<Rightarrow> label_loop ext dictionary_parser dfs dfs))"

section \<open>Vocabulary of the properties\<close>



text \<open>The names of all the entries under a folder, at any depth.\<close>

fun names_under :: "'b fsnode \<Rightarrow> string list" where
  "names_under (File f) = []"
| "names_under (Dir entries) =
     map fst entries @ concat (map (\<lambda>e. names_under (snd e)) entries)"

section \<open>A concrete instance\<close>

text \<open>
  An instance of the collaborators on which the functions can be run: the bytes of a
  Stata file are the table they decode to, pandas is a release 2.2 or 2.3, and the
  dictionary has one label, for the value 1 of the column ESTRATO of the schema REGVIV.
\<close>

definition upper_char :: "char \<Rightarrow> char" where
  "upper_char c =
     (case map_of (zip ''abcdefghijklmnopqrstuvwxyz'' ''ABCDEFGHIJKLMNOPQRSTUVWXYZ'') c of
        None \<Rightarrow> c
      | Some u \<Rightarrow> u)"

definition example_externals :: "(column list, value, unit) externals" where
  "example_externals =
     \<lparr>read_stata = (\<lambda>data. case data of
                       Data df \<Rightarrow> Inr df
                     | Archive _ \<Rightarrow> Inl (ExternalError ''read_stata'')),
      pandas_version = From_2_2,
      str_upper = map upper_char,
      DictionaryParser = (\<lambda>_. Inr ()),
      get_value_labels = (\<lambda>_ schema.
        if schema = ''REGVIV'' then Inr [''ESTRATO'' \<mapsto> [Num 1 \<mapsto> Str ''Estrato bajo'']]
        else Inr Map.empty)\<rparr>"

text \<open>
  A territory archive: one nested archive per record type, each with one Stata file of
  one row and one column, and a file that is no nested archive.
\<close>

definition stata_file :: "string \<Rightarrow> rat \<Rightarrow> column list blob" where
  "stata_file c n = Data [\<lparr>column_name = c, dtype = other_dtype ''int8'', cells = [Num n]\<rparr>]"

definition territory_with :: "string \<Rightarrow> rat \<Rightarrow> column list blob" where
  "territory_with c n =
     Archive
       [(''CNPV2018_1VIV_A2_DTA.zip'', Archive [(''CNPV2018_1VIV_A2.DTA'', stata_file c n)]),
        (''CNPV2018_2HOG_A2_DTA.zip'', Archive [(''CNPV2018_2HOG_A2.DTA'', stata_file c n)]),
        (''CNPV2018_3FALL_A2_DTA.zip'', Archive [(''CNPV2018_3FALL_A2.DTA'', stata_file c n)]),
        (''CNPV2018_5PER_A2_DTA.zip'', Archive [(''CNPV2018_5PER_A2.DTA'', stata_file c n)]),
        (''CNPV2018_MGN_A2_DTA.zip'', Archive [(''CNPV2018_MGN_A2.DTA'', stata_file c n)]),
        (''LEEME.txt'', Data [])]"

definition territory :: "rat \<Rightarrow> column list blob" where
  "territory n = territory_with ''u_dpto'' n"

definition example_dfs :: "(string, value DataFrame) pydict" where
  "example_dfs =
     [(''viviendas'', [[(''ESTRATO'', Num 1)], [(''ESTRATO'', Num 2)]]),
      (''hogares'', [[(''H_NROHOG'', Num 1)]]),
      (''fallecidos'', []),
      (''personas'', [[(''P_SEXO'', Num 1)]]),
      (''marco_georreferenciacion'', [[(''ESTRATO'', Num 1)]])]"

section \<open>Properties of the Record Type Mapper\<close>

lemma split_not_Nil: "split sep s \<noteq> []"
  by (induction s) (auto split: list.splits)

lemma split_no_sep: "sep \<notin> set s \<Longrightarrow> split sep s = [s]"
  by (induction s) auto

lemma split_first_piece:
  "sep \<notin> set pre \<Longrightarrow> split sep (pre @ sep # rest) = pre # split sep rest"
  by (induction pre) auto

lemma split_second_piece:
  assumes "sep \<notin> set pre" and "sep \<notin> set seg" and "rest = [] \<or> hd rest = sep"
  shows "\<exists>more. split sep (pre @ sep # seg @ rest) = pre # seg # more"
proof (cases rest)
  case Nil
  with assms show ?thesis
    by (simp add: split_first_piece split_no_sep)
next
  case (Cons r rest')
  with assms have "rest = sep # rest'" by simp
  with assms show ?thesis
    by (simp add: split_first_piece)
qed

text \<open>
  Claim C1. A filename whose second underscore-delimited piece is \<open>seg\<close> is
  \<open>pre _ seg\<close> followed by nothing or by a further underscore, with no underscore in
  \<open>pre\<close> or \<open>seg\<close>. On every such filename \<open>MapDataframeName\<close> returns the record type that
  the fixed table gives for \<open>seg\<close> (1VIV: viviendas, 2HOG: hogares, 3FALL: fallecidos,
  5PER: personas, MGN: marco_georreferenciacion), and raises \<open>KeyError\<close> for every other
  \<open>seg\<close>.
\<close>

theorem MapDataframeName_second_segment:
  assumes "CHR ''_'' \<notin> set pre" and "CHR ''_'' \<notin> set seg"
    and "rest = [] \<or> hd rest = CHR ''_''"
  shows "MapDataframeName (pre @ ''_'' @ seg @ rest) =
          (if seg = ''1VIV'' then Inr ''viviendas''
           else if seg = ''2HOG'' then Inr ''hogares''
           else if seg = ''3FALL'' then Inr ''fallecidos''
           else if seg = ''5PER'' then Inr ''personas''
           else if seg = ''MGN'' then Inr ''marco_georreferenciacion''
           else Inl (KeyError seg))"
proof -
  from split_second_piece [OF assms]
  obtain more where "split (CHR ''_'') (pre @ CHR ''_'' # seg @ rest) = pre # seg # more"
    by blast
  then show ?thesis
    by (simp add: MapDataframeName_def getitem_def)
qed

theorem MapDataframeName_second_segment_witness:
  "MapDataframeName ''05_1VIV_A2.dta'' = Inr ''viviendas''
   \<and> MapDataframeName ''05_MGN'' = Inr ''marco_georreferenciacion''
   \<and> MapDataframeName ''05_4XYZ_A2.dta'' = Inl (KeyError ''4XYZ'')"
  using MapDataframeName_second_segment [of "''05''" "''1VIV''" "''_A2.dta''"]
    MapDataframeName_second_segment [of "''05''" "''MGN''" "[]"]
    MapDataframeName_second_segment [of "''05''" "''4XYZ''" "''_A2.dta''"]
  by simp

text \<open>
  Claim C9. \<open>MapRecordName\<close> returns the schema identifier of each of the four record
  types that have one, and raises \<open>KeyError\<close> on the georeference record type.
\<close>

theorem MapRecordName_table:
  "MapRecordName ''viviendas'' = Inr ''REGVIV''
   \<and> MapRecordName ''hogares'' = Inr ''REGHOG''
   \<and> MapRecordName ''fallecidos'' = Inr ''REGFALL''
   \<and> MapRecordName ''personas'' = Inr ''REGPER''
   \<and> MapRecordName ''marco_georreferenciacion'' = Inl (KeyError ''marco_georreferenciacion'')"
  by (simp add: MapRecordName_def getitem_def)

section \<open>Properties of the Table Cleaner\<close>

lemma written_same:
  "map (\<lambda>(x, y). if y = Missing then x else y) (zip vs vs) = vs"
  by (induction vs) auto

lemma update_column_cast:
  assumes "update_column release this (this\<lparr>dtype := Int64\<rparr>) = Inr this'"
  shows "column_name this' = column_name this \<and> cells this' = cells this
         \<and> (dtype this' = dtype this \<or> dtype this' = object \<or> dtype this' = Float64)"
  using assms
  by (cases release)
    (auto simp: update_column_def Let_def written_same split: if_splits)

lemma find_cast:
  assumes "distinct (map column_name df)" and "this \<in> set df"
  shows "find (\<lambda>that. column_name that = column_name this)
           (map (\<lambda>c. c\<lparr>dtype := Int64\<rparr>) (filter (\<lambda>c. dtype c = float64) df)) =
         (if dtype this = float64 then Some (this\<lparr>dtype := Int64\<rparr>) else None)"
  using assms
proof (induction df)
  case Nil
  then show ?case by simp
next
  case (Cons c df)
  show ?case
  proof (cases "this = c")
    case True
    have "find (\<lambda>that. column_name that = column_name c)
            (map (\<lambda>c. c\<lparr>dtype := Int64\<rparr>) (filter (\<lambda>c. dtype c = float64) df)) = None"
    proof -
      from Cons.prems(1) have "\<forall>x \<in> set df. column_name x \<noteq> column_name c"
        by (auto simp: image_iff)
      then show ?thesis by (simp add: find_None_iff)
    qed
    with True show ?thesis by simp
  next
    case False
    with Cons.prems have "this \<in> set df" "column_name c \<noteq> column_name this" by auto
    with Cons.IH Cons.prems(1) show ?thesis by simp
  qed
qed

lemma update_columns_cast:
  assumes "update_columns release cs (map (\<lambda>c. c\<lparr>dtype := Int64\<rparr>) (select_dtypes df)) = Inr cs'"
    and "distinct (map column_name df)" and "set cs \<subseteq> set df"
  shows "list_all2 (\<lambda>c c'. column_name c' = column_name c \<and> cells c' = cells c
           \<and> (dtype c \<noteq> float64 \<longrightarrow> dtype c' = dtype c)
           \<and> (dtype c = float64 \<longrightarrow> dtype c' = float64 \<or> dtype c' = object \<or> dtype c' = Float64))
         cs cs'"
  using assms
proof (induction cs arbitrary: cs')
  case Nil
  then show ?case by simp
next
  case (Cons this cs)
  from Cons.prems(3) have mem: "this \<in> set df" and rest: "set cs \<subseteq> set df" by auto
  let ?other = "map (\<lambda>c. c\<lparr>dtype := Int64\<rparr>) (select_dtypes df)"
  from Cons.prems(1) obtain this' rest' where
    head: "(case find (\<lambda>that. column_name that = column_name this) ?other of
              None \<Rightarrow> Inr this
            | Some that \<Rightarrow> update_column release this that) = Inr this'"
    and tail: "update_columns release cs ?other = Inr rest'"
    and cs': "cs' = this' # rest'"
    by (auto split: sum.splits)
  have "column_name this' = column_name this \<and> cells this' = cells this
        \<and> (dtype this \<noteq> float64 \<longrightarrow> dtype this' = dtype this)
        \<and> (dtype this = float64 \<longrightarrow>
             dtype this' = float64 \<or> dtype this' = object \<or> dtype this' = Float64)"
  proof (cases "dtype this = float64")
    case True
    with head find_cast [OF Cons.prems(2) mem]
    have "update_column release this (this\<lparr>dtype := Int64\<rparr>) = Inr this'"
      by (simp add: select_dtypes_def)
    from update_column_cast [OF this] True show ?thesis by auto
  next
    case False
    with head find_cast [OF Cons.prems(2) mem] have "this' = this"
      by (simp add: select_dtypes_def)
    with False show ?thesis by simp
  qed
  with Cons.IH [OF tail Cons.prems(2) rest] cs' show ?case by simp
qed

text \<open>
  Whatever the release of pandas, when \<open>CleanDataframe\<close> returns, every column has its
  name in upper case and its values as before, a column that is not \<^verbatim>\<open>float64\<close> has its
  element type as before, and a \<^verbatim>\<open>float64\<close> column is a \<^verbatim>\<open>float64\<close>, \<^verbatim>\<open>object\<close> or \<^verbatim>\<open>Float64\<close>
  column: never an \<^verbatim>\<open>Int64\<close> one.
\<close>

lemma CleanDataframe_columns:
  assumes "CleanDataframe ext df = Inr df'" and "distinct (map column_name df)"
  shows "list_all2 (\<lambda>c c'. column_name c' = str_upper ext (column_name c) \<and> cells c' = cells c
           \<and> (dtype c \<noteq> float64 \<longrightarrow> dtype c' = dtype c)
           \<and> (dtype c = float64 \<longrightarrow> dtype c' = float64 \<or> dtype c' = object \<or> dtype c' = Float64))
         df df'"
proof -
  from assms(1) obtain cs where
    cs: "update_columns (pandas_version ext) df
           (map (\<lambda>c. c\<lparr>dtype := Int64\<rparr>) (select_dtypes df)) = Inr cs"
    and df': "df' = map (\<lambda>c. c\<lparr>column_name := str_upper ext (column_name c)\<rparr>) cs"
    by (auto simp: CleanDataframe_def astype_Int64_def update_def split: sum.splits if_splits)
  from update_columns_cast [OF cs assms(2)] df' show ?thesis
    by (auto simp: list_all2_map2 elim!: list_all2_mono)
qed

text \<open>
  A table with no \<^verbatim>\<open>float64\<close> column is returned with its column names in upper case and
  nothing else changed (from pandas 3.0, when it has a row).
\<close>

lemma update_columns_no_float64:
  "list_all (\<lambda>c. dtype c \<noteq> float64) df \<Longrightarrow> update_columns release cs (select_dtypes df) = Inr cs"
proof (induction cs)
  case Nil
  then show ?case by simp
next
  case (Cons c cs)
  from Cons.prems have "select_dtypes df = []"
    by (simp add: select_dtypes_def list_all_iff filter_empty_conv)
  with Cons show ?case by simp
qed

lemma CleanDataframe_no_float64:
  assumes "list_all (\<lambda>c. dtype c \<noteq> float64) df"
    and "pandas_version ext \<noteq> From_3_0 \<or> \<not> list_all (\<lambda>c. cells c = []) df"
  shows "CleanDataframe ext df = Inr (map (\<lambda>c. c\<lparr>column_name := str_upper ext (column_name c)\<rparr>) df)"
proof -
  from assms(1) have "select_dtypes df = []"
    by (simp add: select_dtypes_def list_all_iff filter_empty_conv)
  with assms(2) update_columns_no_float64 [OF assms(1), of "pandas_version ext" df]
  show ?thesis
    by (auto simp: CleanDataframe_def astype_Int64_def update_def)
qed

lemmas CleanDataframe_simps =
  CleanDataframe_def select_dtypes_def astype_Int64_def update_def update_column_def

text \<open>
  A \<^verbatim>\<open>float64\<close> column with a value that is not an integer makes \<open>CleanDataframe\<close> raise,
  in every release.
\<close>

lemma CleanDataframe_fraction:
  "CleanDataframe ext [\<lparr>column_name = ''area'', dtype = float64, cells = [Num 1, Num (3 / 2)]\<rparr>] =
     Inl TypeError"
  by (simp add: CleanDataframe_simps)

text \<open>
  A \<^verbatim>\<open>float64\<close> column of integers with a missing value: an \<^verbatim>\<open>object\<close> column before
  pandas 2.2, a \<^verbatim>\<open>Float64\<close> column in 2.2 and 2.3, \<open>TypeError\<close> from 3.0.
\<close>

lemma CleanDataframe_missing_value:
  "CleanDataframe ext [\<lparr>column_name = ''estrato'', dtype = float64, cells = [Num 1, Missing]\<rparr>] =
     (case pandas_version ext of
        Before_2_2 \<Rightarrow>
          Inr [\<lparr>column_name = str_upper ext ''estrato'', dtype = object, cells = [Num 1, Missing]\<rparr>]
      | From_2_2 \<Rightarrow>
          Inr [\<lparr>column_name = str_upper ext ''estrato'', dtype = Float64, cells = [Num 1, Missing]\<rparr>]
      | From_3_0 \<Rightarrow> Inl TypeError)"
  by (cases "pandas_version ext") (simp_all add: CleanDataframe_simps)

text \<open>
  Claim C2, on which the code fails. \<open>CleanDataframe\<close> computes the \<^verbatim>\<open>Int64\<close> copy of the
  \<^verbatim>\<open>float64\<close> columns and hands it to \<^verbatim>\<open>df.update\<close>, which writes values into the columns
  of the table and does not give them the element type of the copy. On the table with
  the \<^verbatim>\<open>float64\<close> columns \<open>estrato\<close> (1.0, 2.0) and \<open>area\<close> (two missing values) and the
  \<^verbatim>\<open>int64\<close> column \<open>hogares\<close>, \<open>CleanDataframe\<close> returns the table with its names in upper
  case, in which \<open>estrato\<close> is still a \<^verbatim>\<open>float64\<close> column (an \<^verbatim>\<open>object\<close> column before
  pandas 2.2) and \<open>area\<close> is still a \<^verbatim>\<open>float64\<close> column: no column has become a nullable
  integer column.
\<close>

theorem CleanDataframe_float64_columns:
  "CleanDataframe ext
     [\<lparr>column_name = ''estrato'', dtype = float64, cells = [Num 1, Num 2]\<rparr>,
      \<lparr>column_name = ''area'', dtype = float64, cells = [Missing, Missing]\<rparr>,
      \<lparr>column_name = ''hogares'', dtype = other_dtype ''int64'', cells = [Num 3, Num 4]\<rparr>] =
   Inr [\<lparr>column_name = str_upper ext ''estrato'',
          dtype = (case pandas_version ext of
                     Before_2_2 \<Rightarrow> object
                   | From_2_2 \<Rightarrow> float64
                   | From_3_0 \<Rightarrow> float64),
          cells = [Num 1, Num 2]\<rparr>,
        \<lparr>column_name = str_upper ext ''area'', dtype = float64, cells = [Missing, Missing]\<rparr>,
        \<lparr>column_name = str_upper ext ''hogares'', dtype = other_dtype ''int64'',
          cells = [Num 3, Num 4]\<rparr>]"
  by (cases "pandas_version ext") (simp_all add: CleanDataframe_simps)

section \<open>Properties of the Archive Decoder\<close>

lemma dta_file_loop_bad_name:
  "g \<in> set names \<Longrightarrow> MapDataframeName g = Inl e \<Longrightarrow>
   \<exists>e'. dta_file_loop ext dta_archive names df_dictionary = Inl e'"
proof (induction names arbitrary: df_dictionary)
  case Nil
  then show ?case by simp
next
  case (Cons n names)
  show ?case
  proof (cases "n = g")
    case True
    with Cons.prems show ?thesis by simp
  next
    case False
    with Cons.prems have "g \<in> set names" by simp
    from Cons.IH [OF this Cons.prems(2)] show ?thesis
      by (auto split: sum.splits)
  qed
qed

lemma dta_archive_loop_bad_name:
  "f \<in> set fs \<Longrightarrow> zip_open data_archive f = Inr (Archive dta_archive) \<Longrightarrow>
   g \<in> set (namelist dta_archive) \<Longrightarrow> MapDataframeName g = Inl e \<Longrightarrow>
   \<exists>e'. dta_archive_loop ext data_archive fs df_dictionary = Inl e'"
proof (induction fs arbitrary: df_dictionary)
  case Nil
  then show ?case by simp
next
  case (Cons n fs)
  show ?case
  proof (cases "n = f")
    case True
    from dta_file_loop_bad_name [OF Cons.prems(3,4)]
    obtain e' where "dta_file_loop ext dta_archive (namelist dta_archive) df_dictionary = Inl e'"
      by blast
    with True Cons.prems(2) show ?thesis
      by (simp add: ZipFile_def)
  next
    case False
    with Cons.prems have "f \<in> set fs" by simp
    from Cons.IH [OF this Cons.prems(2,3,4)] show ?thesis
      by (auto split: sum.splits)
  qed
qed

text \<open>
  Claim C6. Decoding a territory archive is fail-fast: when a nested archive that the
  decoder selects (an entry of the outer archive whose lowered name ends with
  \<^verbatim>\<open>dta.zip\<close>) has an entry whose filename \<open>MapDataframeName\<close> does not map, then
  \<open>ReadZippedStataData\<close> raises, whatever the other entries are, and returns no mapping of
  record types to tables.
\<close>

theorem ReadZippedStataData_fail_fast:
  assumes "f \<in> set (namelist data_archive)"
    and "endswith (lower f) ''dta.zip''"
    and "zip_open data_archive f = Inr (Archive dta_archive)"
    and "g \<in> set (namelist dta_archive)"
    and "MapDataframeName g = Inl e"
  shows "\<exists>e'. ReadZippedStataData ext (File (Archive data_archive)) = Inl e'"
proof -
  from assms(1,2)
  have "f \<in> set (filter (\<lambda>filename. endswith (lower filename) ''dta.zip'') (namelist data_archive))"
    by simp
  from dta_archive_loop_bad_name [OF this assms(3,4,5)] show ?thesis
    by (simp add: ReadZippedStataData_def ZipFile_def)
qed

theorem ReadZippedStataData_fail_fast_witness:
  "MapDataframeName ''CNPV2018_4XYZ_A2.DTA'' = Inl (KeyError ''4XYZ'')
   \<and> (\<exists>e'. ReadZippedStataData example_externals
         (File (Archive
            [(''CNPV2018_1VIV_A2_DTA.zip'',
                Archive [(''CNPV2018_1VIV_A2.DTA'', stata_file ''u_dpto'' 5),
                         (''CNPV2018_4XYZ_A2.DTA'', Data [])])])) = Inl e')"
proof -
  let ?inner = "[(''CNPV2018_1VIV_A2.DTA'', stata_file ''u_dpto'' 5),
                 (''CNPV2018_4XYZ_A2.DTA'', Data [])]"
  let ?outer = "[(''CNPV2018_1VIV_A2_DTA.zip'', Archive ?inner)]"
  have h1: "''CNPV2018_1VIV_A2_DTA.zip'' \<in> set (namelist ?outer)"
    by (simp add: namelist_def)
  have h2: "endswith (lower ''CNPV2018_1VIV_A2_DTA.zip'') ''dta.zip''"
    by (simp add: endswith_def lower_def lower_char_def)
  have h3: "zip_open ?outer ''CNPV2018_1VIV_A2_DTA.zip'' = Inr (Archive ?inner)"
    by (simp add: zip_open_def getitem_def)
  have h4: "''CNPV2018_4XYZ_A2.DTA'' \<in> set (namelist ?inner)"
    by (simp add: namelist_def)
  have h5: "MapDataframeName ''CNPV2018_4XYZ_A2.DTA'' = Inl (KeyError ''4XYZ'')"
    by (simp add: MapDataframeName_def getitem_def)
  from ReadZippedStataData_fail_fast [OF h1 h2 h3 h4 h5, of example_externals] h5
  show ?thesis by blast
qed





section \<open>Properties of the Folder Aggregator\<close>

lemma glob_Nil: "(\<forall>name \<in> set (names_under node). \<not> fnmatch name) \<Longrightarrow> glob node = []"
proof (induction node)
  case (File f)
  then show ?case by simp
next
  case (Dir entries)
  have "filter (\<lambda>e. fnmatch (fst e)) entries = []"
    using Dir.prems by (auto simp: filter_empty_conv)
  moreover have "glob (snd e) = []" if "e \<in> set entries" for e
  proof -
    have "snd e \<in> Basic_BNFs.snds e" by (cases e) simp
    moreover have "\<forall>name \<in> set (names_under (snd e)). \<not> fnmatch name"
      using Dir.prems that by auto
    ultimately show ?thesis using Dir.IH that by blast
  qed
  ultimately show ?case by simp
qed

text \<open>
  Claim C7. On a folder under which no entry, at any depth, has a name of the form two
  digits, underscore, anything, \<open>ReadDataFolder\<close> does not raise and returns the
  dictionary of the five record types, each with the table that has no row.
\<close>

theorem ReadDataFolder_no_match:
  assumes "\<forall>name \<in> set (names_under folder_path). \<not> fnmatch name"
  shows "ReadDataFolder ext folder_path =
           Inr [(''viviendas'', []), (''hogares'', []), (''fallecidos'', []),
                (''personas'', []), (''marco_georreferenciacion'', [])]"
  using glob_Nil [OF assms] by (simp add: ReadDataFolder_def pd_DataFrame_def)

theorem ReadDataFolder_no_match_witness:
  "ReadDataFolder example_externals
     (Dir [(''LEEME.txt'', File (Data [])),
           (''2018'', Dir [(''5_Antioquia.zip'', File (territory 5))])]) =
   Inr [(''viviendas'', []), (''hogares'', []), (''fallecidos'', []),
        (''personas'', []), (''marco_georreferenciacion'', [])]"
proof -
  have "\<forall>name \<in> set (names_under
          (Dir [(''LEEME.txt'', File (Data [])),
                (''2018'', Dir [(''5_Antioquia.zip'', File (territory 5))])])).
          \<not> fnmatch name"
    by (simp add: isdigit_def)
  from ReadDataFolder_no_match [OF this] show ?thesis .
qed
















section \<open>Properties of the Label Substitutor\<close>

lemma GetValueLabels_Inr:
  "GetValueLabels ext dictionary_parser name = (Inr d, queries) \<Longrightarrow>
   \<exists>schema. MapRecordName name = Inr schema \<and>
     get_value_labels ext dictionary_parser schema = Inr d \<and> queries = [schema]"
  by (auto simp: GetValueLabels_def split: sum.splits)

lemma GetValueLabels_queries:
  "GetValueLabels ext dictionary_parser name = (result, queries) \<Longrightarrow>
   queries = [] \<or> MapRecordName name = Inr (hd queries) \<and> queries = [hd queries]"
  by (auto simp: GetValueLabels_def split: sum.splits)

lemma label_loop_frame:
  "label_loop ext dictionary_parser items dfs = (Inr out, queries) \<Longrightarrow>
   name \<notin> fst ` set items \<or> name = ''marco_georreferenciacion'' \<Longrightarrow>
   map_of out name = map_of dfs name"
proof (induction items arbitrary: dfs queries)
  case Nil
  then show ?case by simp
next
  case (Cons item items)
  obtain n df where item: "item = (n, df)" by (cases item)
  show ?case
  proof (cases "n = ''marco_georreferenciacion''")
    case True
    with Cons.prems item have "label_loop ext dictionary_parser items dfs = (Inr out, queries)"
      by simp
    moreover from Cons.prems(2) have "name \<notin> fst ` set items \<or> name = ''marco_georreferenciacion''"
      by auto
    ultimately show ?thesis by (rule Cons.IH)
  next
    case False
    from Cons.prems(2) False item have neq: "name \<noteq> n" by auto
    from Cons.prems(1) False item
    obtain d q q' where "label_loop ext dictionary_parser items (AList.update n (replace df d) dfs) = (Inr out, q')"
      by (auto split: prod.splits sum.splits)
    moreover from Cons.prems(2) have "name \<notin> fst ` set items \<or> name = ''marco_georreferenciacion''"
      by auto
    ultimately have "map_of out name = map_of (AList.update n (replace df d) dfs) name"
      by (rule Cons.IH)
    with neq show ?thesis by (simp add: AList.update_conv')
  qed
qed

lemma label_loop_queries:
  "label_loop ext dictionary_parser items dfs = (result, queries) \<Longrightarrow>
   \<exists>names rest. filter (\<lambda>n. n \<noteq> ''marco_georreferenciacion'') (map fst items) = names @ rest \<and>
      map MapRecordName names = map Inr queries"
proof (induction items arbitrary: dfs result queries)
  case Nil
  then show ?case by simp
next
  case (Cons item items)
  obtain n df where item: "item = (n, df)" by (cases item)
  show ?case
  proof (cases "n = ''marco_georreferenciacion''")
    case True
    with Cons.prems item have "label_loop ext dictionary_parser items dfs = (result, queries)"
      by simp
    from Cons.IH [OF this] True item show ?thesis by simp
  next
    case False
    show ?thesis
    proof (cases "GetValueLabels ext dictionary_parser n")
      case (Pair r q)
      show ?thesis
      proof (cases r)
        case (Inl e)
        with Pair False item Cons.prems have "queries = q" by simp
        with GetValueLabels_queries [OF Pair]
        have "queries = [] \<or> MapRecordName n = Inr (hd queries) \<and> queries = [hd queries]"
          by simp
        then show ?thesis
        proof
          assume "queries = []"
          then show ?thesis by simp
        next
          assume q: "MapRecordName n = Inr (hd queries) \<and> queries = [hd queries]"
          show ?thesis
          proof (intro exI conjI)
            show "filter (\<lambda>n. n \<noteq> ''marco_georreferenciacion'') (map fst (item # items)) =
                [n] @ filter (\<lambda>n. n \<noteq> ''marco_georreferenciacion'') (map fst items)"
              using False item by simp
            show "map MapRecordName [n] = map Inr queries"
              using q by (metis list.simps(8,9))
          qed
        qed
      next
        case (Inr d)
        from GetValueLabels_Inr [OF Pair [unfolded Inr]]
        obtain schema where s: "MapRecordName n = Inr schema" "q = [schema]" by blast
        obtain result' q' where
          rest: "label_loop ext dictionary_parser items (AList.update n (replace df d) dfs) = (result', q')"
          by (cases "label_loop ext dictionary_parser items (AList.update n (replace df d) dfs)")
        from Cons.IH [OF rest] obtain names rest' where
          "filter (\<lambda>n. n \<noteq> ''marco_georreferenciacion'') (map fst items) = names @ rest'"
          "map MapRecordName names = map Inr q'" by blast
        moreover from Cons.prems Pair Inr False item rest s have "queries = schema # q'"
          by simp
        ultimately show ?thesis
          using False item s
          by (intro exI [of _ "n # names"] exI [of _ rest']) simp
      qed
    qed
  qed
qed

lemma label_loop_replaced:
  "label_loop ext dictionary_parser items dfs = (Inr out, queries) \<Longrightarrow>
   distinct (map fst items) \<Longrightarrow> (name, df) \<in> set items \<Longrightarrow>
   name \<noteq> ''marco_georreferenciacion'' \<Longrightarrow>
   \<exists>schema d. MapRecordName name = Inr schema \<and>
     get_value_labels ext dictionary_parser schema = Inr d \<and>
     map_of out name = Some (replace df d)"
proof (induction items arbitrary: dfs queries)
  case Nil
  then show ?case by simp
next
  case (Cons item items)
  obtain n df0 where item: "item = (n, df0)" by (cases item)
  show ?case
  proof (cases "n = ''marco_georreferenciacion''")
    case True
    with Cons.prems item have "label_loop ext dictionary_parser items dfs = (Inr out, queries)"
      "distinct (map fst items)" "(name, df) \<in> set items"
      by auto
    from Cons.IH [OF this Cons.prems(4)] show ?thesis .
  next
    case False
    from Cons.prems(1) False item
    obtain d q q' where gvl: "GetValueLabels ext dictionary_parser n = (Inr d, q)"
      and rest: "label_loop ext dictionary_parser items (AList.update n (replace df0 d) dfs) = (Inr out, q')"
      by (auto split: prod.splits sum.splits)
    show ?thesis
    proof (cases "(name, df) = item")
      case True
      with item have eq: "name = n" "df = df0" by simp_all
      from Cons.prems(2) item have "n \<notin> fst ` set items" by simp
      with label_loop_frame [OF rest, of n]
      have "map_of out n = Some (replace df0 d)"
        by (simp add: AList.update_conv')
      with GetValueLabels_Inr [OF gvl] eq show ?thesis by auto
    next
      case False
      with Cons.prems have "distinct (map fst items)" "(name, df) \<in> set items" by auto
      from Cons.IH [OF rest this Cons.prems(4)] show ?thesis .
    qed
  qed
qed

lemma replace_cells:
  "length (replace df d) = length df \<and>
   (\<forall>i < length df. length (replace df d ! i) = length (df ! i) \<and>
      (\<forall>j < length (df ! i). replace df d ! i ! j =
         (fst (df ! i ! j), replace_value d (fst (df ! i ! j)) (snd (df ! i ! j)))))"
  by (simp add: replace_def case_prod_unfold)

lemma example_label_run:
  "label_loop example_externals () example_dfs example_dfs =
     (Inr [(''viviendas'', [[(''ESTRATO'', Str ''Estrato bajo'')], [(''ESTRATO'', Num 2)]]),
           (''hogares'', [[(''H_NROHOG'', Num 1)]]),
           (''fallecidos'', []),
           (''personas'', [[(''P_SEXO'', Num 1)]]),
           (''marco_georreferenciacion'', [[(''ESTRATO'', Num 1)]])],
      [''REGVIV'', ''REGHOG'', ''REGFALL'', ''REGPER''])"
  by (simp add: example_dfs_def GetValueLabels_def MapRecordName_def getitem_def
      example_externals_def replace_def replace_value_def)

lemma CreateProcessedDataframe_georeference:
  assumes "CreateProcessedDataframe ext folder_path dict_path = (Inr out, queries)"
  shows "\<exists>dfs. ReadDataFolder ext folder_path = Inr dfs \<and>
           map_of out ''marco_georreferenciacion'' = map_of dfs ''marco_georreferenciacion''"
proof -
  from assms obtain dfs dictionary_parser where
    "ReadDataFolder ext folder_path = Inr dfs"
    "label_loop ext dictionary_parser dfs dfs = (Inr out, queries)"
    by (auto simp: CreateProcessedDataframe_def split: sum.splits)
  with label_loop_frame [of ext dictionary_parser dfs dfs out queries "''marco_georreferenciacion''"]
  show ?thesis by simp
qed

text \<open>
  Claim C4. The label substitution never modifies the georeference table: whatever the
  input dictionary of tables and the parsed dictionary, when the loop returns, the table
  under \<open>marco_georreferenciacion\<close> is the one of the input; and, also when it raises, each
  query made to the parsed dictionary is the schema identifier of a key of the input
  other than \<open>marco_georreferenciacion\<close>, in the order of the keys.
\<close>

theorem label_loop_georeference:
  assumes "label_loop ext dictionary_parser dfs dfs = (result, queries)"
  shows "(\<forall>out. result = Inr out \<longrightarrow>
            map_of out ''marco_georreferenciacion'' = map_of dfs ''marco_georreferenciacion'')
         \<and> (\<exists>names rest.
              filter (\<lambda>n. n \<noteq> ''marco_georreferenciacion'') (map fst dfs) = names @ rest
              \<and> map MapRecordName names = map Inr queries)"
proof
  show "\<forall>out. result = Inr out \<longrightarrow>
          map_of out ''marco_georreferenciacion'' = map_of dfs ''marco_georreferenciacion''"
    using assms label_loop_frame [of ext dictionary_parser dfs dfs _ queries
        "''marco_georreferenciacion''"]
    by simp
  show "\<exists>names rest.
          filter (\<lambda>n. n \<noteq> ''marco_georreferenciacion'') (map fst dfs) = names @ rest
          \<and> map MapRecordName names = map Inr queries"
    using assms by (rule label_loop_queries)
qed

theorem label_loop_georeference_witness:
  "\<exists>out queries.
     label_loop example_externals () example_dfs example_dfs = (Inr out, queries)
     \<and> map_of out ''marco_georreferenciacion'' = Some [[(''ESTRATO'', Num 1)]]
     \<and> map_of example_dfs ''marco_georreferenciacion'' = Some [[(''ESTRATO'', Num 1)]]
     \<and> queries = [''REGVIV'', ''REGHOG'', ''REGFALL'', ''REGPER'']"
  using label_loop_georeference [OF example_label_run] example_label_run
  by (simp add: example_dfs_def)

text \<open>
  Claim C5. For every table of the input other than the georeference one, when the loop
  returns, the table of the output is the table of the input in which, cell by cell, a
  value that has a label in the value labels of the record type's schema, under the
  cell's column, is replaced by that label, and every other value (no label for the
  value, or no entry for the column) is unchanged. The value labels are those that the
  parsed dictionary gives for the schema identifier of the record type.
\<close>

theorem label_loop_substitution:
  assumes "label_loop ext dictionary_parser dfs dfs = (Inr out, queries)"
    and "distinct (map fst dfs)"
    and "map_of dfs name = Some df"
    and "name \<noteq> ''marco_georreferenciacion''"
  shows "\<exists>schema d df'.
           MapRecordName name = Inr schema
           \<and> get_value_labels ext dictionary_parser schema = Inr d
           \<and> map_of out name = Some df'
           \<and> length df' = length df
           \<and> (\<forall>i < length df. length (df' ! i) = length (df ! i)
                \<and> (\<forall>j < length (df ! i).
                      fst (df' ! i ! j) = fst (df ! i ! j)
                      \<and> snd (df' ! i ! j) =
                          (case d (fst (df ! i ! j)) of
                             None \<Rightarrow> snd (df ! i ! j)
                           | Some labels \<Rightarrow>
                               (case labels (snd (df ! i ! j)) of
                                  None \<Rightarrow> snd (df ! i ! j)
                                | Some l \<Rightarrow> l))))"
proof -
  from assms(3) have "(name, df) \<in> set dfs"
    by (rule map_of_SomeD)
  from label_loop_replaced [OF assms(1,2) this assms(4)]
  obtain schema d where "MapRecordName name = Inr schema"
    "get_value_labels ext dictionary_parser schema = Inr d"
    "map_of out name = Some (replace df d)"
    by blast
  with replace_cells [of df d] show ?thesis
    by (intro exI [of _ schema] exI [of _ d] exI [of _ "replace df d"])
      (simp add: replace_value_def)
qed

theorem label_loop_substitution_witness:
  "\<exists>out queries.
     label_loop example_externals () example_dfs example_dfs = (Inr out, queries)
     \<and> map_of example_dfs ''viviendas'' = Some [[(''ESTRATO'', Num 1)], [(''ESTRATO'', Num 2)]]
     \<and> map_of out ''viviendas'' = Some [[(''ESTRATO'', Str ''Estrato bajo'')], [(''ESTRATO'', Num 2)]]"
proof -
  have h2: "distinct (map fst example_dfs)"
    by (simp add: example_dfs_def)
  have h3: "map_of example_dfs ''viviendas'' = Some [[(''ESTRATO'', Num 1)], [(''ESTRATO'', Num 2)]]"
    by (simp add: example_dfs_def)
  have h4: "''viviendas'' \<noteq> ''marco_georreferenciacion''"
    by simp
  from label_loop_substitution [OF example_label_run h2 h3 h4] example_label_run h3
  show ?thesis by simp
qed

end
